theory Spec2Isabelle
  imports Complex_Main "HOL-Library.AList"
begin

section \<open>Python values\<close>

text \<open>
  The fertilizer engine of \<^verbatim>\<open>src/app.py\<close> is a pure function of a crop name and
  a dictionary of soil readings that arrives as decoded JSON. A reading is therefore
  \<^verbatim>\<open>None\<close> (key missing, or JSON null), a bool, an int, a float or a string. A JSON
  array or object is left out: \<^verbatim>\<open>interpret\<close> turns it into \<^verbatim>\<open>None\<close>, as it does JSON null.

  Python floats are idealised as real numbers: arithmetic is exact, and there are no
  infinities, NaNs, rounding or overflow. Python ints are unbounded and are \<open>int\<close>.
  A string is a list of 8-bit characters, each read as the code point of the same number.
\<close>

type_synonym py_float = real

datatype pyval = PyNone | PyBool bool | PyInt int | PyFloat py_float | PyStr string

datatype error = ValueError string | AttributeError

subsection \<open>\<^verbatim>\<open>str.strip\<close>, \<^verbatim>\<open>str.lower\<close>, \<^verbatim>\<open>str\<close>\<close>

definition isspace :: "char \<Rightarrow> bool" where
  \<comment> \<open>the characters \<^verbatim>\<open>str.isspace\<close> accepts below code point 256\<close>
  "isspace c = (let n = (of_char c :: nat) in
     (9 \<le> n \<and> n \<le> 13) \<or> (28 \<le> n \<and> n \<le> 32) \<or> n = 133 \<or> n = 160)"

definition strip :: "string \<Rightarrow> string" where
  "strip s = rev (dropWhile isspace (rev (dropWhile isspace s)))"

definition lower_char :: "char \<Rightarrow> char" where
  "lower_char c = (let n = (of_char c :: nat) in
     if (65 \<le> n \<and> n \<le> 90) \<or> (192 \<le> n \<and> n \<le> 222 \<and> n \<noteq> 215)
     then char_of (n + 32) else c)"

definition lower :: "string \<Rightarrow> string" where
  "lower s = map lower_char s"

fun digits10 :: "nat \<Rightarrow> string" where
  "digits10 n = (if n < 10 then [char_of (48 + n)]
                 else digits10 (n div 10) @ [char_of (48 + n mod 10)])"

declare digits10.simps [simp del]

definition str_int :: "int \<Rightarrow> string" where
  \<comment> \<open>\<^verbatim>\<open>str(i)\<close>, which is also how an f-string renders an int\<close>
  "str_int i = (if i < 0 then CHR ''-'' # digits10 (nat (- i)) else digits10 (nat i))"

fun str :: "pyval \<Rightarrow> string" where
  \<comment> \<open>\<^verbatim>\<open>str(value)\<close>; \<open>interpret_val\<close> applies it to non-numeric values only, so the
    rendering of a float is left out\<close>
  "str PyNone = ''None''"
| "str (PyStr s) = s"
| "str (PyBool b) = (if b then ''True'' else ''False'')"
| "str (PyInt i) = str_int i"

subsection \<open>\<^verbatim>\<open>float(s)\<close> on a string\<close>

text \<open>
  The builtin follows the grammar of the language reference:
  \<^verbatim>\<open>
  digitpart   ::= digit (["_"] digit)*
  number      ::= [digitpart] "." digitpart | digitpart ["."]
  exponent    ::= ("e" | "E") [sign] digitpart
  floatvalue  ::= [sign] number [exponent]
  \<close>
  with white space allowed on both sides. The spellings of infinity and NaN, which
  the builtin also accepts, denote floats that the real numbers do not have; they are
  outside this model, and \<open>float_of_str\<close> has no value for them.
\<close>

definition is_digit :: "char \<Rightarrow> bool" where
  "is_digit c = (48 \<le> (of_char c :: nat) \<and> (of_char c :: nat) \<le> 57)"

definition digit_val :: "char \<Rightarrow> nat" where
  "digit_val c = of_char c - 48"

fun digit_tail :: "string \<Rightarrow> nat list \<times> string" where
  "digit_tail [] = ([], [])"
| "digit_tail [c] = (if is_digit c then ([digit_val c], []) else ([], [c]))"
| "digit_tail (c # d # cs) =
     (if is_digit c then (case digit_tail (d # cs) of (ds, r) \<Rightarrow> (digit_val c # ds, r))
      else if c = CHR ''_'' \<and> is_digit d
        then (case digit_tail cs of (ds, r) \<Rightarrow> (digit_val d # ds, r))
      else ([], c # d # cs))"

definition digitpart :: "string \<Rightarrow> (nat list \<times> string) option" where
  "digitpart s = (case s of
       [] \<Rightarrow> None
     | c # cs \<Rightarrow> if is_digit c
         then (case digit_tail cs of (ds, r) \<Rightarrow> Some (digit_val c # ds, r))
         else None)"

definition number :: "string \<Rightarrow> ((nat list \<times> nat list) \<times> string) option" where
  "number s = (case digitpart s of
       Some (ip, r) \<Rightarrow>
         (case r of
            [] \<Rightarrow> Some ((ip, []), [])
          | c # r' \<Rightarrow>
              if c = CHR ''.''
              then (case digitpart r' of
                      Some (fp, r'') \<Rightarrow> Some ((ip, fp), r'')
                    | None \<Rightarrow> Some ((ip, []), r'))
              else Some ((ip, []), r))
     | None \<Rightarrow>
         (case s of
            [] \<Rightarrow> None
          | c # r' \<Rightarrow>
              if c = CHR ''.''
              then (case digitpart r' of
                      Some (fp, r'') \<Rightarrow> Some (([], fp), r'')
                    | None \<Rightarrow> None)
              else None))"

definition sign :: "string \<Rightarrow> bool \<times> string" where
  \<comment> \<open>an optional sign; the flag says that the value is negated\<close>
  "sign s = (case s of
       [] \<Rightarrow> (False, [])
     | c # cs \<Rightarrow> if c = CHR ''-'' then (True, cs)
                else if c = CHR ''+'' then (False, cs) else (False, s))"

definition nat_of_digits :: "nat list \<Rightarrow> nat" where
  "nat_of_digits ds = foldl (\<lambda>a d. 10 * a + d) 0 ds"

definition exponent :: "string \<Rightarrow> int option" where
  \<comment> \<open>the rest of the literal after the number: nothing, or an exponent up to the end\<close>
  "exponent s = (case s of
       [] \<Rightarrow> Some 0
     | c # cs \<Rightarrow>
         if c = CHR ''e'' \<or> c = CHR ''E''
         then (case sign cs of (neg, r) \<Rightarrow>
                (case digitpart r of
                   Some (ds, []) \<Rightarrow>
                     Some (if neg then - int (nat_of_digits ds) else int (nat_of_digits ds))
                 | _ \<Rightarrow> None))
         else None)"

definition pow10 :: "int \<Rightarrow> real" where
  "pow10 k = (if 0 \<le> k then 10 ^ nat k else 1 / 10 ^ nat (- k))"

definition float_space :: "char \<Rightarrow> bool" where
  \<comment> \<open>the white space \<^verbatim>\<open>float\<close> skips around a literal\<close>
  "float_space c = (let n = (of_char c :: nat) in
     (9 \<le> n \<and> n \<le> 13) \<or> n = 32 \<or> n = 133 \<or> n = 160)"

definition float_of_str :: "string \<Rightarrow> py_float option" where
  \<comment> \<open>\<open>None\<close> stands for the \<^verbatim>\<open>ValueError\<close> of a malformed literal\<close>
  "float_of_str s =
     (case sign (rev (dropWhile float_space (rev (dropWhile float_space s)))) of
        (neg, r) \<Rightarrow>
          (case number r of
             None \<Rightarrow> None
           | Some ((ip, fp), r') \<Rightarrow>
               (case exponent r' of
                  None \<Rightarrow> None
                | Some e \<Rightarrow>
                    (let m = real (nat_of_digits (ip @ fp)) * pow10 (e - int (length fp))
                     in Some (if neg then - m else m)))))"

fun float_of :: "pyval \<Rightarrow> py_float option" where
  \<comment> \<open>\<^verbatim>\<open>float(value)\<close> under \<^verbatim>\<open>try\<close>: \<open>None\<close> is any exception (\<^verbatim>\<open>TypeError\<close> for \<^verbatim>\<open>None\<close>)\<close>
  "float_of (PyStr s) = float_of_str s"
| "float_of PyNone = None"
| "float_of (PyBool b) = Some (if b then 1 else 0)"
| "float_of (PyInt i) = Some (of_int i)"
| "float_of (PyFloat x) = Some x"

section \<open>The value interpreter\<close>

text \<open>
  \<^verbatim>\<open>
  def interpret(value, low=None, high=None):
      if isinstance(value, (int, float)):
          return float(value)
      v = str(value).strip().lower()
      if v in ("low", "l"): return low * 0.8
      if v in ("medium", "med", "m"): return (low + high)/2
      if v in ("high", "h"): return high * 1.2
      try: return float(value)
      except: return None
  \<close>
  \<^verbatim>\<open>bool\<close> is a subclass of \<^verbatim>\<open>int\<close>, so a bool takes the first branch. The result
  \<open>None\<close> is Python's \<^verbatim>\<open>None\<close>. Every call in the program passes both thresholds,
  so \<open>low\<close> and \<open>high\<close> are numbers here. The function is named \<open>interpret_val\<close>,
  since \<open>interpret\<close> is a keyword of Isabelle.
\<close>

fun isinstance_int_float :: "pyval \<Rightarrow> bool" where
  "isinstance_int_float (PyBool b) = True"
| "isinstance_int_float (PyInt i) = True"
| "isinstance_int_float (PyFloat x) = True"
| "isinstance_int_float v = False"

definition interpret_val :: "pyval \<Rightarrow> py_float \<Rightarrow> py_float \<Rightarrow> py_float option" where
  "interpret_val val low high =
     (if isinstance_int_float val then float_of val
      else let v = lower (strip (str val)) in
        if v \<in> {''low'', ''l''} then Some (low * 0.8)
        else if v \<in> {''medium'', ''med'', ''m''} then Some ((low + high) / 2)
        else if v \<in> {''high'', ''h''} then Some (high * 1.2)
        else float_of val)"

section \<open>Reference tables\<close>

text \<open>
  The three module-level dictionaries, with the keys and values of the source. No
  statement of the program assigns or updates them, so they hold these values at
  every call. A subscript \<^verbatim>\<open>d[k]\<close> is \<open>the (d k)\<close>; every key the engine uses is a
  literal of the source that the table holds (lemmas \<open>ref_thresholds_keys\<close> and
  \<open>FERT_N_CONTENT_keys\<close> below), or was tested with \<^verbatim>\<open>in\<close> before.
\<close>

definition baseline_npk :: "string \<rightharpoonup> int \<times> int \<times> int" where
  "baseline_npk = map_of
     [(''wheat'', (120, 60, 40)),
      (''paddy'', (150, 60, 40)),
      (''maize'', (150, 75, 50)),
      (''cotton'', (100, 50, 50)),
      (''mustard'', (80, 40, 30))]"

datatype content = Frac py_float | Fracs "string \<rightharpoonup> py_float"

definition FERT_N_CONTENT :: "string \<rightharpoonup> content" where
  "FERT_N_CONTENT = map_of
     [(''urea'', Frac 0.46),
      (''dap'', Fracs (map_of [(''N'', 0.18), (''P2O5'', 0.46)])),
      (''mop'', Fracs (map_of [(''K2O'', 0.60)])),
      (''gypsum'', Fracs (map_of [(''S'', 0.18)])),
      (''znso4'', Fracs (map_of [(''Zn'', 0.21)])),
      (''borax'', Fracs (map_of [(''B'', 0.11)])),
      (''compost'', Fracs (map_of [(''OC'', 0.5)]))]"

fun frac :: "content \<Rightarrow> py_float" where
  "frac (Frac x) = x"

fun fracs :: "content \<Rightarrow> string \<Rightarrow> py_float" where
  "fracs (Fracs d) k = the (d k)"

definition ref_thresholds :: "string \<rightharpoonup> py_float \<times> py_float" where
  "ref_thresholds = map_of
     [(''N'', (280, 500)), (''P'', (10, 25)), (''K'', (120, 280)), (''S'', (10, 20)),
      (''Zn'', (0.6, 1.5)), (''Fe'', (4.5, 10)), (''Cu'', (0.2, 1)), (''Mn'', (2, 5)),
      (''B'', (0.5, 1)), (''OC'', (0.5, 0.8)), (''pH'', (6.5, 7.5)), (''EC'', (0, 4))]"

section \<open>The recommendation engine\<close>

text \<open>
  The body of \<^verbatim>\<open>recommend_for_farmer\<close> is a sequence of blocks. Each block is a
  definition here, in the order of the source, and reads the global tables it uses
  through a parameter: \<open>th\<close> for \<^verbatim>\<open>ref_thresholds\<close>, \<open>fc\<close> for \<^verbatim>\<open>FERT_N_CONTENT\<close>.
\<close>

definition round_up :: "py_float \<Rightarrow> int" where
  "round_up x = \<lceil>x\<rceil>"

definition dict_get :: "(string \<rightharpoonup> pyval) \<Rightarrow> string \<Rightarrow> pyval" where
  \<comment> \<open>\<^verbatim>\<open>inputs.get(k)\<close>\<close>
  "dict_get d k = (case d k of None \<Rightarrow> PyNone | Some v \<Rightarrow> v)"

definition reading ::
  "(string \<rightharpoonup> py_float \<times> py_float) \<Rightarrow> (string \<rightharpoonup> pyval) \<Rightarrow> string \<Rightarrow> py_float option" where
  \<comment> \<open>\<^verbatim>\<open>interpret(inputs.get(k), *ref_thresholds[k])\<close>\<close>
  "reading th inputs k =
     (case the (th k) of (low, high) \<Rightarrow> interpret_val (dict_get inputs k) low high)"

fun truthy :: "py_float option \<Rightarrow> bool" where
  \<comment> \<open>the truth value of a reading in \<^verbatim>\<open>if x\<close>, \<^verbatim>\<open>x and ...\<close>: \<^verbatim>\<open>None\<close> and \<^verbatim>\<open>0.0\<close> are false\<close>
  "truthy None = False"
| "truthy (Some x) = (x \<noteq> 0)"

text \<open>
  \<^verbatim>\<open>
  need_N = max(0.0, base_N - (N if N else 0))
  need_P2O5 = max(0.0, base_P2O5 - (P if P else 0))
  need_K2O = max(0.0, base_K2O - (K if K else 0))
  if OC and OC < ref_thresholds["OC"][0]:
      need_N *= 1.1
  if EC and EC > 4:
      need_N *= 0.8; need_P2O5 *= 0.8; need_K2O *= 0.8
  \<close>
\<close>

definition nutrient_gaps ::
  "(string \<rightharpoonup> py_float \<times> py_float) \<Rightarrow> int \<times> int \<times> int \<Rightarrow>
   py_float option \<Rightarrow> py_float option \<Rightarrow> py_float option \<Rightarrow>
   py_float option \<Rightarrow> py_float option \<Rightarrow> py_float \<times> py_float \<times> py_float" where
  "nutrient_gaps th base N P K OC EC =
     (case base of (base_N, base_P2O5, base_K2O) \<Rightarrow>
        let need_N = max 0 (of_int base_N - (if truthy N then the N else 0));
            need_P2O5 = max 0 (of_int base_P2O5 - (if truthy P then the P else 0));
            need_K2O = max 0 (of_int base_K2O - (if truthy K then the K else 0));
            need_N = (if truthy OC \<and> the OC < fst (the (th ''OC''))
                      then need_N * 1.1 else need_N)
        in if truthy EC \<and> the EC > 4
           then (need_N * 0.8, need_P2O5 * 0.8, need_K2O * 0.8)
           else (need_N, need_P2O5, need_K2O))"

text \<open>
  The engine builds two local structures, the list \<^verbatim>\<open>messages\<close> and the dictionary
  \<^verbatim>\<open>fert_plan\<close>, and returns them as a pair. The dictionary is an association list in
  insertion order; \<^verbatim>\<open>fert_plan[k] = v\<close> is \<open>AList.update k v\<close>, which replaces the value
  of a key that is there and adds a new key at the end. A block takes the two
  structures as they are before it and returns them as they are after it.
\<close>

type_synonym outputs = "string list \<times> (string \<times> int) list"

definition dap_rule ::
  "(string \<rightharpoonup> content) \<Rightarrow> py_float \<Rightarrow> string \<Rightarrow> outputs \<Rightarrow> py_float \<times> outputs" where
  \<comment> \<open>the first component is \<^verbatim>\<open>N_from_dap\<close>\<close>
  "dap_rule fc need_P2O5 crop_name out =
     (case out of (messages, fert_plan) \<Rightarrow>
        if need_P2O5 > 0 then
          let dap_needed = round_up (need_P2O5 / fracs (the (fc ''dap'')) ''P2O5'');
              N_from_dap = of_int dap_needed * fracs (the (fc ''dap'')) ''N''
          in (N_from_dap,
              messages @ [''Apply '' @ str_int dap_needed
                @ '' kg/ha DAP because phosphorus is below recommended level for ''
                @ crop_name @ ''.''],
              AList.update ''DAP_kg/ha'' dap_needed fert_plan)
        else (0, messages, fert_plan))"

definition urea_rule ::
  "(string \<rightharpoonup> content) \<Rightarrow> py_float \<Rightarrow> string \<Rightarrow> outputs \<Rightarrow> outputs" where
  "urea_rule fc remaining_N crop_name out =
     (case out of (messages, fert_plan) \<Rightarrow>
        if remaining_N > 0 then
          let urea_needed = round_up (remaining_N / frac (the (fc ''urea'')))
          in (messages @ [''Apply '' @ str_int urea_needed
                @ '' kg/ha Urea because nitrogen is below recommended level for ''
                @ crop_name @ ''.''],
              AList.update ''Urea_kg/ha'' urea_needed fert_plan)
        else (messages, fert_plan))"

definition mop_rule ::
  "(string \<rightharpoonup> content) \<Rightarrow> py_float \<Rightarrow> string \<Rightarrow> outputs \<Rightarrow> outputs" where
  "mop_rule fc need_K2O crop_name out =
     (case out of (messages, fert_plan) \<Rightarrow>
        if need_K2O > 0 then
          let mop_needed = round_up (need_K2O / fracs (the (fc ''mop'')) ''K2O'')
          in (messages @ [''Apply '' @ str_int mop_needed
                @ '' kg/ha MOP because potassium is below recommended level for ''
                @ crop_name @ ''.''],
              AList.update ''MOP_kg/ha'' mop_needed fert_plan)
        else (messages, fert_plan))"

definition gypsum_rule ::
  "(string \<rightharpoonup> py_float \<times> py_float) \<Rightarrow> (string \<rightharpoonup> content) \<Rightarrow>
   py_float option \<Rightarrow> string \<Rightarrow> outputs \<Rightarrow> outputs" where
  "gypsum_rule th fc S crop_name out =
     (case out of (messages, fert_plan) \<Rightarrow>
        if truthy S \<and> the S < fst (the (th ''S'')) then
          let gypsum_needed = round_up ((fst (the (th ''S'')) - the S)
                                / fracs (the (fc ''gypsum'')) ''S'')
          in (messages @ [''Apply '' @ str_int gypsum_needed
                @ '' kg/ha Gypsum because soil sulphur is low for '' @ crop_name @ ''.''],
              AList.update ''Gypsum_kg/ha'' gypsum_needed fert_plan)
        else (messages, fert_plan))"

definition zn_rule ::
  "(string \<rightharpoonup> py_float \<times> py_float) \<Rightarrow> (string \<rightharpoonup> content) \<Rightarrow>
   py_float option \<Rightarrow> outputs \<Rightarrow> outputs" where
  "zn_rule th fc Zn out =
     (case out of (messages, fert_plan) \<Rightarrow>
        if truthy Zn \<and> the Zn < fst (the (th ''Zn'')) then
          let zn_needed = round_up ((fst (the (th ''Zn'')) - the Zn)
                            / fracs (the (fc ''znso4'')) ''Zn'')
          in (messages @ [''Apply '' @ str_int zn_needed
                @ '' kg/ha Zinc Sulfate because soil zinc is below recommended levels.''],
              AList.update ''ZnSO4_kg/ha'' zn_needed fert_plan)
        else (messages, fert_plan))"

definition borax_rule ::
  "(string \<rightharpoonup> py_float \<times> py_float) \<Rightarrow> (string \<rightharpoonup> content) \<Rightarrow>
   py_float option \<Rightarrow> outputs \<Rightarrow> outputs" where
  "borax_rule th fc B out =
     (case out of (messages, fert_plan) \<Rightarrow>
        if truthy B \<and> the B < fst (the (th ''B'')) then
          let borax_needed = round_up ((fst (the (th ''B'')) - the B)
                               / fracs (the (fc ''borax'')) ''B'')
          in (messages @ [''Apply '' @ str_int borax_needed
                @ '' kg/ha Borax because soil boron is below recommended levels.''],
              AList.update ''Borax_kg/ha'' borax_needed fert_plan)
        else (messages, fert_plan))"

definition compost_rule ::
  "(string \<rightharpoonup> py_float \<times> py_float) \<Rightarrow> (string \<rightharpoonup> content) \<Rightarrow>
   py_float option \<Rightarrow> outputs \<Rightarrow> outputs" where
  "compost_rule th fc OC out =
     (case out of (messages, fert_plan) \<Rightarrow>
        if truthy OC \<and> the OC < fst (the (th ''OC'')) then
          let compost_needed = round_up ((fst (the (th ''OC'')) - the OC)
                                 / fracs (the (fc ''compost'')) ''OC'')
          in (messages @ [''Apply approx '' @ str_int compost_needed
                @ '' tons/ha Compost/FYM to improve soil organic matter.''],
              AList.update ''Compost_kg/ha'' (compost_needed * 1000) fert_plan)
        else (messages, fert_plan))"

definition micro_rule ::
  "(string \<rightharpoonup> py_float \<times> py_float) \<Rightarrow> string \<Rightarrow> string \<Rightarrow>
   py_float option \<Rightarrow> outputs \<Rightarrow> outputs" where
  \<comment> \<open>the three blocks for Fe, Cu and Mn, which differ in the key and the text only\<close>
  "micro_rule th key text x out =
     (case out of (messages, fert_plan) \<Rightarrow>
        if truthy x \<and> the x < fst (the (th key))
        then (messages @ [text], fert_plan)
        else (messages, fert_plan))"

definition ph_rule :: "py_float option \<Rightarrow> outputs \<Rightarrow> outputs" where
  "ph_rule pH out =
     (case out of (messages, fert_plan) \<Rightarrow>
        if truthy pH \<and> the pH < 6.0
        then (messages @ [''Soil acidic: apply lime to raise pH.''], fert_plan)
        else if truthy pH \<and> the pH > 8.5
        then (messages @ [''Soil alkaline: apply gypsum or acidifying measures to lower pH.''],
              fert_plan)
        else (messages, fert_plan))"

definition ec_rule :: "py_float option \<Rightarrow> outputs \<Rightarrow> outputs" where
  "ec_rule EC out =
     (case out of (messages, fert_plan) \<Rightarrow>
        if truthy EC \<and> the EC > 4
        then (messages @ [''High salinity: grow salt-tolerant crops and improve irrigation.''],
              fert_plan)
        else (messages, fert_plan))"

definition Fe_text :: string where
  "Fe_text = ''Iron low: consider foliar Fe spray because soil Fe is insufficient.''"

definition Cu_text :: string where
  "Cu_text = ''Copper low: consider foliar Cu spray because soil Cu is insufficient.''"

definition Mn_text :: string where
  "Mn_text = ''Manganese low: consider foliar Mn spray because soil Mn is insufficient.''"

text \<open>
  The function itself. \<open>Inl\<close> is the exception it raises, \<open>Inr\<close> the pair
  \<^verbatim>\<open>(messages, fert_plan)\<close> it returns.
\<close>

definition recommend_for_farmer ::
  "(string \<rightharpoonup> pyval) \<Rightarrow> string \<Rightarrow> error + outputs" where
  "recommend_for_farmer inputs crop_name =
     (let crop = lower crop_name in
      if crop \<notin> dom baseline_npk then Inl (ValueError (''Unsupported crop: '' @ crop))
      else
        let N = reading ref_thresholds inputs ''N'';
            P = reading ref_thresholds inputs ''P'';
            K = reading ref_thresholds inputs ''K'';
            S = reading ref_thresholds inputs ''S'';
            Zn = reading ref_thresholds inputs ''Zn'';
            Fe = reading ref_thresholds inputs ''Fe'';
            Cu = reading ref_thresholds inputs ''Cu'';
            Mn = reading ref_thresholds inputs ''Mn'';
            B = reading ref_thresholds inputs ''B'';
            OC = reading ref_thresholds inputs ''OC'';
            pH = reading ref_thresholds inputs ''pH'';
            EC = reading ref_thresholds inputs ''EC'';
            (need_N, need_P2O5, need_K2O) =
               nutrient_gaps ref_thresholds (the (baseline_npk crop)) N P K OC EC;
            out = ([], []);
            (N_from_dap, out) = dap_rule FERT_N_CONTENT need_P2O5 crop_name out;
            remaining_N = max 0 (need_N - N_from_dap);
            out = urea_rule FERT_N_CONTENT remaining_N crop_name out;
            out = mop_rule FERT_N_CONTENT need_K2O crop_name out;
            out = gypsum_rule ref_thresholds FERT_N_CONTENT S crop_name out;
            out = zn_rule ref_thresholds FERT_N_CONTENT Zn out;
            out = borax_rule ref_thresholds FERT_N_CONTENT B out;
            out = compost_rule ref_thresholds FERT_N_CONTENT OC out;
            out = micro_rule ref_thresholds ''Fe'' Fe_text Fe out;
            out = micro_rule ref_thresholds ''Cu'' Cu_text Cu out;
            out = micro_rule ref_thresholds ''Mn'' Mn_text Mn out;
            out = ph_rule pH out;
            out = ec_rule EC out
        in Inr out)"

section \<open>The engine on Python's object store\<close>

text \<open>
  The same function with the objects it touches made explicit. The state holds the
  objects that the three global names are bound to, and a heap of the dictionaries and
  lists that the caller and the engine create; an address is an index into the heap.
  The caller passes the address of its \<^verbatim>\<open>inputs\<close> dictionary. \<^verbatim>\<open>fert_plan = {}\<close> and
  \<^verbatim>\<open>messages = []\<close> allocate a new object each; \<^verbatim>\<open>fert_plan[k] = v\<close> and
  \<^verbatim>\<open>messages.append(m)\<close> update the object at that address; the function returns the two
  addresses. An \<^verbatim>\<open>inputs\<close> that is no dictionary has no method \<^verbatim>\<open>get\<close>, which is an
  \<^verbatim>\<open>AttributeError\<close>.
\<close>

datatype obj =
  DictObj "string \<rightharpoonup> pyval"
| PlanObj "(string \<times> int) list"
| ListObj "string list"

record pystate =
  g_baseline_npk :: "string \<rightharpoonup> int \<times> int \<times> int"
  g_FERT_N_CONTENT :: "string \<rightharpoonup> content"
  g_ref_thresholds :: "string \<rightharpoonup> py_float \<times> py_float"
  heap :: "obj list"

definition alloc :: "obj \<Rightarrow> pystate \<Rightarrow> nat \<times> pystate" where
  "alloc ob s = (length (heap s), s\<lparr>heap := heap s @ [ob]\<rparr>)"

definition run_block ::
  "nat \<Rightarrow> nat \<Rightarrow> (outputs \<Rightarrow> 'a \<times> outputs) \<Rightarrow> 'a \<Rightarrow> pystate \<Rightarrow> 'a \<times> pystate" where
  \<comment> \<open>a block of the body, working on the objects at the addresses \<open>messages\<close> and \<open>fert_plan\<close>\<close>
  "run_block messages fert_plan block d s =
     (case (heap s ! messages, heap s ! fert_plan) of
        (ListObj ms, PlanObj pl) \<Rightarrow>
          (case block (ms, pl) of
             (r, ms', pl') \<Rightarrow>
               (r, s\<lparr>heap := (heap s)[messages := ListObj ms', fert_plan := PlanObj pl']\<rparr>))
      | _ \<Rightarrow> (d, s))"

definition recommend_for_farmer_st ::
  "pystate \<Rightarrow> nat \<Rightarrow> string \<Rightarrow> (error + nat \<times> nat) \<times> pystate" where
  "recommend_for_farmer_st s inputs_ref crop_name =
     (let crop = lower crop_name in
      if crop \<notin> dom (g_baseline_npk s)
      then (Inl (ValueError (''Unsupported crop: '' @ crop)), s)
      else
        case (if inputs_ref < length (heap s) then Some (heap s ! inputs_ref) else None) of
          Some (DictObj inputs) \<Rightarrow>
            let N = reading (g_ref_thresholds s) inputs ''N'';
                P = reading (g_ref_thresholds s) inputs ''P'';
                K = reading (g_ref_thresholds s) inputs ''K'';
                S = reading (g_ref_thresholds s) inputs ''S'';
                Zn = reading (g_ref_thresholds s) inputs ''Zn'';
                Fe = reading (g_ref_thresholds s) inputs ''Fe'';
                Cu = reading (g_ref_thresholds s) inputs ''Cu'';
                Mn = reading (g_ref_thresholds s) inputs ''Mn'';
                B = reading (g_ref_thresholds s) inputs ''B'';
                OC = reading (g_ref_thresholds s) inputs ''OC'';
                pH = reading (g_ref_thresholds s) inputs ''pH'';
                EC = reading (g_ref_thresholds s) inputs ''EC'';
                (need_N, need_P2O5, need_K2O) =
                   nutrient_gaps (g_ref_thresholds s) (the (g_baseline_npk s crop)) N P K OC EC;
                (fert_plan, s) = alloc (PlanObj []) s;
                (messages, s) = alloc (ListObj []) s;
                (N_from_dap, s) = run_block messages fert_plan
                   (dap_rule (g_FERT_N_CONTENT s) need_P2O5 crop_name) 0 s;
                remaining_N = max 0 (need_N - N_from_dap);
                (u, s) = run_block messages fert_plan
                   (\<lambda>out. ((), urea_rule (g_FERT_N_CONTENT s) remaining_N crop_name out)) () s;
                (u, s) = run_block messages fert_plan
                   (\<lambda>out. ((), mop_rule (g_FERT_N_CONTENT s) need_K2O crop_name out)) () s;
                (u, s) = run_block messages fert_plan
                   (\<lambda>out. ((), gypsum_rule (g_ref_thresholds s) (g_FERT_N_CONTENT s) S crop_name out))
                   () s;
                (u, s) = run_block messages fert_plan
                   (\<lambda>out. ((), zn_rule (g_ref_thresholds s) (g_FERT_N_CONTENT s) Zn out)) () s;
                (u, s) = run_block messages fert_plan
                   (\<lambda>out. ((), borax_rule (g_ref_thresholds s) (g_FERT_N_CONTENT s) B out)) () s;
                (u, s) = run_block messages fert_plan
                   (\<lambda>out. ((), compost_rule (g_ref_thresholds s) (g_FERT_N_CONTENT s) OC out)) () s;
                (u, s) = run_block messages fert_plan
                   (\<lambda>out. ((), micro_rule (g_ref_thresholds s) ''Fe'' Fe_text Fe out)) () s;
                (u, s) = run_block messages fert_plan
                   (\<lambda>out. ((), micro_rule (g_ref_thresholds s) ''Cu'' Cu_text Cu out)) () s;
                (u, s) = run_block messages fert_plan
                   (\<lambda>out. ((), micro_rule (g_ref_thresholds s) ''Mn'' Mn_text Mn out)) () s;
                (u, s) = run_block messages fert_plan (\<lambda>out. ((), ph_rule pH out)) () s;
                (u, s) = run_block messages fert_plan (\<lambda>out. ((), ec_rule EC out)) () s
            in (Inr (messages, fert_plan), s)
        | _ \<Rightarrow> (Inl AttributeError, s))"

section \<open>What the engine computes, rule by rule\<close>

text \<open>
  The five supported crops, and the values that the local variables \<^verbatim>\<open>need_N\<close>,
  \<^verbatim>\<open>need_P2O5\<close>, \<^verbatim>\<open>need_K2O\<close> and \<^verbatim>\<open>remaining_N\<close> hold for a request.
\<close>

definition supported_crops :: "string set" where
  "supported_crops = {''wheat'', ''paddy'', ''maize'', ''cotton'', ''mustard''}"

definition gaps_of :: "(string \<rightharpoonup> pyval) \<Rightarrow> string \<Rightarrow> py_float \<times> py_float \<times> py_float" where
  "gaps_of inputs crop_name =
     nutrient_gaps ref_thresholds (the (baseline_npk (lower crop_name)))
       (reading ref_thresholds inputs ''N'') (reading ref_thresholds inputs ''P'')
       (reading ref_thresholds inputs ''K'') (reading ref_thresholds inputs ''OC'')
       (reading ref_thresholds inputs ''EC'')"

definition remaining_N_of :: "(string \<rightharpoonup> pyval) \<Rightarrow> string \<Rightarrow> py_float" where
  "remaining_N_of inputs crop_name =
     (case gaps_of inputs crop_name of (need_N, need_P2O5, need_K2O) \<Rightarrow>
        max 0 (need_N - (if need_P2O5 > 0 then of_int \<lceil>need_P2O5 / 0.46\<rceil> * 0.18 else 0)))"

text \<open>
  A sequence of rules is a list with one entry for each rule, in a fixed order: what
  the rule contributes if it fires, and \<open>None\<close> if it does not. \<open>fired\<close> collects the
  contributions in the order of the sequence.
\<close>

fun fired :: "'a option list \<Rightarrow> 'a list" where
  "fired [] = []"
| "fired (None # rs) = fired rs"
| "fired (Some x # rs) = x # fired rs"

text \<open>
  The fixed sequence of the seven dosing rules: for each its trigger, the label it
  records and the quantity, with the thresholds and content fractions as numbers.
\<close>

definition dose_sequence ::
  "(string \<rightharpoonup> pyval) \<Rightarrow> string \<Rightarrow> (string \<times> int) option list" where
  "dose_sequence inputs crop_name =
     (case gaps_of inputs crop_name of (need_N, need_P2O5, need_K2O) \<Rightarrow>
        let remaining_N = remaining_N_of inputs crop_name;
            S = reading ref_thresholds inputs ''S''; Zn = reading ref_thresholds inputs ''Zn'';
            B = reading ref_thresholds inputs ''B''; OC = reading ref_thresholds inputs ''OC''
        in [if need_P2O5 > 0 then Some (''DAP_kg/ha'', \<lceil>need_P2O5 / 0.46\<rceil>) else None,
            if remaining_N > 0 then Some (''Urea_kg/ha'', \<lceil>remaining_N / 0.46\<rceil>) else None,
            if need_K2O > 0 then Some (''MOP_kg/ha'', \<lceil>need_K2O / 0.6\<rceil>) else None,
            if truthy S \<and> the S < 10
              then Some (''Gypsum_kg/ha'', \<lceil>(10 - the S) / 0.18\<rceil>) else None,
            if truthy Zn \<and> the Zn < 0.6
              then Some (''ZnSO4_kg/ha'', \<lceil>(0.6 - the Zn) / 0.21\<rceil>) else None,
            if truthy B \<and> the B < 0.5
              then Some (''Borax_kg/ha'', \<lceil>(0.5 - the B) / 0.11\<rceil>) else None,
            if truthy OC \<and> the OC < 0.5
              then Some (''Compost_kg/ha'', \<lceil>(0.5 - the OC) / 0.5\<rceil> * 1000) else None])"

text \<open>
  The fixed sequence of the twelve message rules DAP, Urea, MOP, Gypsum, ZnSO4, Borax,
  Compost, Fe, Cu, Mn, pH, EC: for each its trigger and the message it appends.
\<close>

definition rule_sequence ::
  "(string \<rightharpoonup> pyval) \<Rightarrow> string \<Rightarrow> string option list" where
  "rule_sequence inputs crop_name =
     (case gaps_of inputs crop_name of (need_N, need_P2O5, need_K2O) \<Rightarrow>
        let remaining_N = remaining_N_of inputs crop_name;
            S = reading ref_thresholds inputs ''S''; Zn = reading ref_thresholds inputs ''Zn'';
            B = reading ref_thresholds inputs ''B''; OC = reading ref_thresholds inputs ''OC'';
            Fe = reading ref_thresholds inputs ''Fe''; Cu = reading ref_thresholds inputs ''Cu'';
            Mn = reading ref_thresholds inputs ''Mn''; pH = reading ref_thresholds inputs ''pH'';
            EC = reading ref_thresholds inputs ''EC''
        in [if need_P2O5 > 0
              then Some (''Apply '' @ str_int \<lceil>need_P2O5 / 0.46\<rceil>
                @ '' kg/ha DAP because phosphorus is below recommended level for ''
                @ crop_name @ ''.'')
              else None,
            if remaining_N > 0
              then Some (''Apply '' @ str_int \<lceil>remaining_N / 0.46\<rceil>
                @ '' kg/ha Urea because nitrogen is below recommended level for ''
                @ crop_name @ ''.'')
              else None,
            if need_K2O > 0
              then Some (''Apply '' @ str_int \<lceil>need_K2O / 0.6\<rceil>
                @ '' kg/ha MOP because potassium is below recommended level for ''
                @ crop_name @ ''.'')
              else None,
            if truthy S \<and> the S < 10
              then Some (''Apply '' @ str_int \<lceil>(10 - the S) / 0.18\<rceil>
                @ '' kg/ha Gypsum because soil sulphur is low for '' @ crop_name @ ''.'')
              else None,
            if truthy Zn \<and> the Zn < 0.6
              then Some (''Apply '' @ str_int \<lceil>(0.6 - the Zn) / 0.21\<rceil>
                @ '' kg/ha Zinc Sulfate because soil zinc is below recommended levels.'')
              else None,
            if truthy B \<and> the B < 0.5
              then Some (''Apply '' @ str_int \<lceil>(0.5 - the B) / 0.11\<rceil>
                @ '' kg/ha Borax because soil boron is below recommended levels.'')
              else None,
            if truthy OC \<and> the OC < 0.5
              then Some (''Apply approx '' @ str_int \<lceil>(0.5 - the OC) / 0.5\<rceil>
                @ '' tons/ha Compost/FYM to improve soil organic matter.'')
              else None,
            if truthy Fe \<and> the Fe < 4.5 then Some Fe_text else None,
            if truthy Cu \<and> the Cu < 0.2 then Some Cu_text else None,
            if truthy Mn \<and> the Mn < 2 then Some Mn_text else None,
            if truthy pH \<and> the pH < 6 then Some ''Soil acidic: apply lime to raise pH.''
            else if truthy pH \<and> the pH > 8.5
              then Some ''Soil alkaline: apply gypsum or acidifying measures to lower pH.''
            else None,
            if truthy EC \<and> the EC > 4
              then Some ''High salinity: grow salt-tolerant crops and improve irrigation.''
              else None])"

section \<open>Lemmas about the tables and the rules\<close>

lemma ref_thresholds_keys:
  "ref_thresholds ''N'' = Some (280, 500)" "ref_thresholds ''P'' = Some (10, 25)"
  "ref_thresholds ''K'' = Some (120, 280)" "ref_thresholds ''S'' = Some (10, 20)"
  "ref_thresholds ''Zn'' = Some (0.6, 1.5)" "ref_thresholds ''Fe'' = Some (4.5, 10)"
  "ref_thresholds ''Cu'' = Some (0.2, 1)" "ref_thresholds ''Mn'' = Some (2, 5)"
  "ref_thresholds ''B'' = Some (0.5, 1)" "ref_thresholds ''OC'' = Some (0.5, 0.8)"
  "ref_thresholds ''pH'' = Some (6.5, 7.5)" "ref_thresholds ''EC'' = Some (0, 4)"
  by (simp_all add: ref_thresholds_def)

lemma FERT_N_CONTENT_keys:
  "frac (the (FERT_N_CONTENT ''urea'')) = 0.46"
  "fracs (the (FERT_N_CONTENT ''dap'')) ''N'' = 0.18"
  "fracs (the (FERT_N_CONTENT ''dap'')) ''P2O5'' = 0.46"
  "fracs (the (FERT_N_CONTENT ''mop'')) ''K2O'' = 0.60"
  "fracs (the (FERT_N_CONTENT ''gypsum'')) ''S'' = 0.18"
  "fracs (the (FERT_N_CONTENT ''znso4'')) ''Zn'' = 0.21"
  "fracs (the (FERT_N_CONTENT ''borax'')) ''B'' = 0.11"
  "fracs (the (FERT_N_CONTENT ''compost'')) ''OC'' = 0.5"
  by (simp_all add: FERT_N_CONTENT_def)

lemma dom_baseline_npk:
  "dom baseline_npk = {''wheat'', ''paddy'', ''maize'', ''cotton'', ''mustard''}"
  by (auto simp: baseline_npk_def split: if_splits)

lemma update_fresh: "k \<notin> fst ` set al \<Longrightarrow> AList.update k v al = al @ [(k, v)]"
  by (induction al) auto


lemma fired_Cons2: "fired (r # r' # rs) = fired [r] @ fired (r' # rs)"
  by (cases r) simp_all

lemma keys_fired_single:
  "k \<in> fst ` set (fired [if c then Some (k', q) else None]) \<longleftrightarrow> c \<and> k = k'"
  by simp

lemma map_of_fired_Cons:
  "map_of (fired ((if c then Some (k, q) else None) # rs)) k' =
     (if c \<and> k' = k then Some q else map_of (fired rs) k')"
  by simp


lemma fired_filter: "fired rs = map the (filter (\<lambda>r. r \<noteq> None) rs)"
  by (induction rs rule: fired.induct) simp_all



lemma dap_rule_eq:
  "''DAP_kg/ha'' \<notin> fst ` set pl \<Longrightarrow>
   dap_rule FERT_N_CONTENT np cn (ms, pl) =
     ((if np > 0 then of_int \<lceil>np / 0.46\<rceil> * 0.18 else 0),
      ms @ fired [if np > 0
                  then Some (''Apply '' @ str_int \<lceil>np / 0.46\<rceil>
                    @ '' kg/ha DAP because phosphorus is below recommended level for ''
                    @ cn @ ''.'')
                  else None],
      pl @ fired [if np > 0 then Some (''DAP_kg/ha'', \<lceil>np / 0.46\<rceil>) else None])"
  by (simp add: dap_rule_def round_up_def FERT_N_CONTENT_keys update_fresh Let_def)

lemma urea_rule_eq:
  "''Urea_kg/ha'' \<notin> fst ` set pl \<Longrightarrow>
   urea_rule FERT_N_CONTENT rn cn (ms, pl) =
     (ms @ fired [if rn > 0
                  then Some (''Apply '' @ str_int \<lceil>rn / 0.46\<rceil>
                    @ '' kg/ha Urea because nitrogen is below recommended level for ''
                    @ cn @ ''.'')
                  else None],
      pl @ fired [if rn > 0 then Some (''Urea_kg/ha'', \<lceil>rn / 0.46\<rceil>) else None])"
  by (simp add: urea_rule_def round_up_def FERT_N_CONTENT_keys update_fresh Let_def)

lemma mop_rule_eq:
  "''MOP_kg/ha'' \<notin> fst ` set pl \<Longrightarrow>
   mop_rule FERT_N_CONTENT nk cn (ms, pl) =
     (ms @ fired [if nk > 0
                  then Some (''Apply '' @ str_int \<lceil>nk / 0.6\<rceil>
                    @ '' kg/ha MOP because potassium is below recommended level for ''
                    @ cn @ ''.'')
                  else None],
      pl @ fired [if nk > 0 then Some (''MOP_kg/ha'', \<lceil>nk / 0.6\<rceil>) else None])"
  by (simp add: mop_rule_def round_up_def FERT_N_CONTENT_keys update_fresh Let_def)

lemma gypsum_rule_eq:
  "''Gypsum_kg/ha'' \<notin> fst ` set pl \<Longrightarrow>
   gypsum_rule ref_thresholds FERT_N_CONTENT S cn (ms, pl) =
     (ms @ fired [if truthy S \<and> the S < 10
                  then Some (''Apply '' @ str_int \<lceil>(10 - the S) / 0.18\<rceil>
                    @ '' kg/ha Gypsum because soil sulphur is low for '' @ cn @ ''.'')
                  else None],
      pl @ fired [if truthy S \<and> the S < 10
                  then Some (''Gypsum_kg/ha'', \<lceil>(10 - the S) / 0.18\<rceil>) else None])"
  by (simp add: gypsum_rule_def round_up_def FERT_N_CONTENT_keys ref_thresholds_keys
      update_fresh Let_def)

lemma zn_rule_eq:
  "''ZnSO4_kg/ha'' \<notin> fst ` set pl \<Longrightarrow>
   zn_rule ref_thresholds FERT_N_CONTENT Zn (ms, pl) =
     (ms @ fired [if truthy Zn \<and> the Zn < 0.6
                  then Some (''Apply '' @ str_int \<lceil>(0.6 - the Zn) / 0.21\<rceil>
                    @ '' kg/ha Zinc Sulfate because soil zinc is below recommended levels.'')
                  else None],
      pl @ fired [if truthy Zn \<and> the Zn < 0.6
                  then Some (''ZnSO4_kg/ha'', \<lceil>(0.6 - the Zn) / 0.21\<rceil>) else None])"
  by (simp add: zn_rule_def round_up_def FERT_N_CONTENT_keys ref_thresholds_keys
      update_fresh Let_def)

lemma borax_rule_eq:
  "''Borax_kg/ha'' \<notin> fst ` set pl \<Longrightarrow>
   borax_rule ref_thresholds FERT_N_CONTENT B (ms, pl) =
     (ms @ fired [if truthy B \<and> the B < 0.5
                  then Some (''Apply '' @ str_int \<lceil>(0.5 - the B) / 0.11\<rceil>
                    @ '' kg/ha Borax because soil boron is below recommended levels.'')
                  else None],
      pl @ fired [if truthy B \<and> the B < 0.5
                  then Some (''Borax_kg/ha'', \<lceil>(0.5 - the B) / 0.11\<rceil>) else None])"
  by (simp add: borax_rule_def round_up_def FERT_N_CONTENT_keys ref_thresholds_keys
      update_fresh Let_def)

lemma compost_rule_eq:
  "''Compost_kg/ha'' \<notin> fst ` set pl \<Longrightarrow>
   compost_rule ref_thresholds FERT_N_CONTENT OC (ms, pl) =
     (ms @ fired [if truthy OC \<and> the OC < 0.5
                  then Some (''Apply approx '' @ str_int \<lceil>(0.5 - the OC) / 0.5\<rceil>
                    @ '' tons/ha Compost/FYM to improve soil organic matter.'')
                  else None],
      pl @ fired [if truthy OC \<and> the OC < 0.5
                  then Some (''Compost_kg/ha'', \<lceil>(0.5 - the OC) / 0.5\<rceil> * 1000) else None])"
  by (simp add: compost_rule_def round_up_def FERT_N_CONTENT_keys ref_thresholds_keys
      update_fresh Let_def)

lemma micro_rule_eq:
  "micro_rule th key text x (ms, pl) =
     (ms @ fired [if truthy x \<and> the x < fst (the (th key)) then Some text else None], pl)"
  by (simp add: micro_rule_def)

lemma ph_rule_eq:
  "ph_rule pH (ms, pl) =
     (ms @ fired [if truthy pH \<and> the pH < 6 then Some ''Soil acidic: apply lime to raise pH.''
                  else if truthy pH \<and> the pH > 8.5
                    then Some ''Soil alkaline: apply gypsum or acidifying measures to lower pH.''
                  else None], pl)"
  by (simp add: ph_rule_def)

lemma ec_rule_eq:
  "ec_rule EC (ms, pl) =
     (ms @ fired [if truthy EC \<and> the EC > 4
                  then Some ''High salinity: grow salt-tolerant crops and improve irrigation.''
                  else None], pl)"
  by (simp add: ec_rule_def)

lemma gaps_of_cases:
  obtains need_N need_P2O5 need_K2O where "gaps_of inputs crop_name = (need_N, need_P2O5, need_K2O)"
  by (cases "gaps_of inputs crop_name") auto

text \<open>
  For a supported crop the engine returns what the rules of the two sequences that fire
  contribute, in the order of the sequences.
\<close>

lemma recommend_closed:
  assumes "lower crop_name \<in> supported_crops"
  shows "recommend_for_farmer inputs crop_name =
           Inr (fired (rule_sequence inputs crop_name), fired (dose_sequence inputs crop_name))"
proof -
  obtain need_N need_P2O5 need_K2O
    where g: "gaps_of inputs crop_name = (need_N, need_P2O5, need_K2O)"
    by (rule gaps_of_cases)
  have g': "nutrient_gaps ref_thresholds (the (baseline_npk (lower crop_name)))
       (reading ref_thresholds inputs ''N'') (reading ref_thresholds inputs ''P'')
       (reading ref_thresholds inputs ''K'') (reading ref_thresholds inputs ''OC'')
       (reading ref_thresholds inputs ''EC'') = (need_N, need_P2O5, need_K2O)"
    using g by (simp add: gaps_of_def)
  have d: "lower crop_name \<in> dom baseline_npk"
    using assms by (simp add: dom_baseline_npk supported_crops_def)
  show ?thesis
    using d
    by (simp add: recommend_for_farmer_def Let_def g g' rule_sequence_def dose_sequence_def
        remaining_N_of_def dap_rule_eq urea_rule_eq mop_rule_eq gypsum_rule_eq zn_rule_eq
        borax_rule_eq compost_rule_eq micro_rule_eq ph_rule_eq ec_rule_eq
        fired_Cons2 keys_fired_single image_Un ref_thresholds_keys
        del: dom_eq_empty_conv fired.simps split del: if_split)
qed

section \<open>C1: the end-to-end scenario\<close>

text \<open>
  C1. For crop "wheat" with the readings N=100, P=5, K=50, OC=0.3, EC=1, pH=7 and no
  reading for S, Zn, B, Fe, Cu, Mn, the engine returns the plan
  \<^verbatim>\<open>{DAP_kg/ha: 120, Urea_kg/ha: 1, Compost_kg/ha: 1000}\<close> and exactly three messages,
  for DAP, Urea and Compost in this order, and no advisory for pH, EC or anything else.
\<close>

theorem wheat_scenario:
  "recommend_for_farmer
     (map_of [(''N'', PyInt 100), (''P'', PyInt 5), (''K'', PyInt 50),
              (''OC'', PyFloat 0.3), (''EC'', PyInt 1), (''pH'', PyInt 7)])
     ''wheat'' =
   Inr ([''Apply 120 kg/ha DAP because phosphorus is below recommended level for wheat.'',
         ''Apply 1 kg/ha Urea because nitrogen is below recommended level for wheat.'',
         ''Apply approx 1 tons/ha Compost/FYM to improve soil organic matter.''],
        [(''DAP_kg/ha'', 120), (''Urea_kg/ha'', 1), (''Compost_kg/ha'', 1000)])"
  by code_simp

section \<open>C2: the value interpreter\<close>




section \<open>C3: unsupported crops\<close>



section \<open>C4: the nutrient gaps\<close>

lemma nutrient_gaps_formula:
  assumes "OC \<noteq> Some 0"
  shows "nutrient_gaps ref_thresholds (base_N, base_P2O5, base_K2O) N P K OC EC =
     (let need_N = max 0 (of_int base_N - (case N of None \<Rightarrow> 0 | Some x \<Rightarrow> x));
          need_P2O5 = max 0 (of_int base_P2O5 - (case P of None \<Rightarrow> 0 | Some x \<Rightarrow> x));
          need_K2O = max 0 (of_int base_K2O - (case K of None \<Rightarrow> 0 | Some x \<Rightarrow> x));
          need_N = (if \<exists>x. OC = Some x \<and> x < 0.5 then need_N * 1.1 else need_N)
      in if \<exists>x. EC = Some x \<and> x > 4
         then (need_N * 0.8, need_P2O5 * 0.8, need_K2O * 0.8)
         else (need_N, need_P2O5, need_K2O))"
proof -
  have n: "(if truthy r then the r else 0) = (case r of None \<Rightarrow> 0 | Some x \<Rightarrow> x)" for r
    by (cases r) auto
  have oc: "(truthy OC \<and> the OC < fst (the (ref_thresholds ''OC''))) \<longleftrightarrow>
      (\<exists>x. OC = Some x \<and> x < 0.5)"
    using assms by (cases OC) (auto simp: ref_thresholds_keys)
  have ec: "(truthy EC \<and> the EC > 4) \<longleftrightarrow> (\<exists>x. EC = Some x \<and> x > 4)"
    by (cases EC) auto
  show ?thesis
    unfolding nutrient_gaps_def prod.case n oc ec ..
qed

text \<open>
  C4. The claim: the gaps are \<open>max 0 (baseline - reading)\<close>, an absent reading counting
  as 0; then, if OC is present, a reading of exactly 0 included, and below 0.5,
  \<open>need_N\<close> is multiplied by 1.1; then, if EC is present and above 4, the three gaps are
  multiplied by 0.8, after the OC scaling. The code tests \<^verbatim>\<open>if OC and OC < ...\<close>, and a
  reading of 0 is false there: for wheat with OC = 0 the nitrogen gap stays 120, where the
  claim gives 132 (as the code does for OC = 0.001), and the plan has 210 kg of urea
  where the claim's gap gives 236. For every other OC the claim holds
  (\<open>nutrient_gaps_formula\<close>).
\<close>

theorem oc_zero_not_scaled:
  "gaps_of (map_of [(''OC'', PyInt 0)]) ''wheat'' = (120, 60, 40) \<and>
   gaps_of (map_of [(''OC'', PyFloat 0.001)]) ''wheat'' = (132, 60, 40) \<and>
   recommend_for_farmer (map_of [(''OC'', PyInt 0)]) ''wheat'' =
     Inr ([''Apply 131 kg/ha DAP because phosphorus is below recommended level for wheat.'',
           ''Apply 210 kg/ha Urea because nitrogen is below recommended level for wheat.'',
           ''Apply 67 kg/ha MOP because potassium is below recommended level for wheat.''],
          [(''DAP_kg/ha'', 131), (''Urea_kg/ha'', 210), (''MOP_kg/ha'', 67)])"
  by code_simp

section \<open>C5: gypsum, zinc sulfate and borax\<close>

lemma dose_of_low_reading:
  assumes "lower crop_name \<in> {''wheat'', ''paddy'', ''maize'', ''cotton'', ''mustard''}"
  shows "\<exists>messages fert_plan.
           recommend_for_farmer inputs crop_name = Inr (messages, fert_plan) \<and>
           (\<forall>x. reading ref_thresholds inputs ''S'' = Some x \<and> x \<noteq> 0 \<and> x < 10 \<longrightarrow>
                map_of fert_plan ''Gypsum_kg/ha'' = Some \<lceil>(10 - x) / 0.18\<rceil>) \<and>
           (\<forall>x. reading ref_thresholds inputs ''Zn'' = Some x \<and> x \<noteq> 0 \<and> x < 0.6 \<longrightarrow>
                map_of fert_plan ''ZnSO4_kg/ha'' = Some \<lceil>(0.6 - x) / 0.21\<rceil>) \<and>
           (\<forall>x. reading ref_thresholds inputs ''B'' = Some x \<and> x \<noteq> 0 \<and> x < 0.5 \<longrightarrow>
                map_of fert_plan ''Borax_kg/ha'' = Some \<lceil>(0.5 - x) / 0.11\<rceil>)"
proof -
  from assms have "lower crop_name \<in> supported_crops"
    by (simp add: supported_crops_def)
  then have r: "recommend_for_farmer inputs crop_name =
      Inr (fired (rule_sequence inputs crop_name), fired (dose_sequence inputs crop_name))"
    by (rule recommend_closed)
  obtain need_N need_P2O5 need_K2O
    where g: "gaps_of inputs crop_name = (need_N, need_P2O5, need_K2O)"
    by (rule gaps_of_cases)
  let ?S = "reading ref_thresholds inputs ''S''"
  let ?Zn = "reading ref_thresholds inputs ''Zn''"
  let ?B = "reading ref_thresholds inputs ''B''"
  have s: "map_of (fired (dose_sequence inputs crop_name)) ''Gypsum_kg/ha''
      = (if truthy ?S \<and> the ?S < 10 then Some \<lceil>(10 - the ?S) / 0.18\<rceil> else None)"
    unfolding dose_sequence_def g Let_def prod.case map_of_fired_Cons by simp
  have z: "map_of (fired (dose_sequence inputs crop_name)) ''ZnSO4_kg/ha''
      = (if truthy ?Zn \<and> the ?Zn < 0.6 then Some \<lceil>(0.6 - the ?Zn) / 0.21\<rceil> else None)"
    unfolding dose_sequence_def g Let_def prod.case map_of_fired_Cons by simp
  have b: "map_of (fired (dose_sequence inputs crop_name)) ''Borax_kg/ha''
      = (if truthy ?B \<and> the ?B < 0.5 then Some \<lceil>(0.5 - the ?B) / 0.11\<rceil> else None)"
    unfolding dose_sequence_def g Let_def prod.case map_of_fired_Cons by simp
  show ?thesis
    unfolding r by (intro exI conjI, rule refl) (auto simp: s z b)
qed

text \<open>
  C5. The claim: a present reading of S below 10, exactly 0 included, puts
  \<open>Gypsum_kg/ha = ceil((10 - S) / 0.18)\<close> into the plan, and likewise Zn below 0.6 gives
  \<open>ZnSO4_kg/ha = ceil((0.6 - Zn) / 0.21)\<close> and B below 0.5 gives
  \<open>Borax_kg/ha = ceil((0.5 - B) / 0.11)\<close>. The code tests \<^verbatim>\<open>if S and S < ...\<close>: for wheat
  with S = Zn = B = 0 the plan has none of the three entries, where the claim gives
  56, 3 and 5; with S = 0.5, Zn = 0.1, B = 0.1 it has all three. For every reading other
  than 0 the claim holds (\<open>dose_of_low_reading\<close>).
\<close>

theorem zero_reading_no_dose:
  "recommend_for_farmer (map_of [(''S'', PyInt 0), (''Zn'', PyInt 0), (''B'', PyInt 0)]) ''wheat'' =
     Inr ([''Apply 131 kg/ha DAP because phosphorus is below recommended level for wheat.'',
           ''Apply 210 kg/ha Urea because nitrogen is below recommended level for wheat.'',
           ''Apply 67 kg/ha MOP because potassium is below recommended level for wheat.''],
          [(''DAP_kg/ha'', 131), (''Urea_kg/ha'', 210), (''MOP_kg/ha'', 67)]) \<and>
   recommend_for_farmer
       (map_of [(''S'', PyFloat 0.5), (''Zn'', PyFloat 0.1), (''B'', PyFloat 0.1)]) ''wheat'' =
     Inr ([''Apply 131 kg/ha DAP because phosphorus is below recommended level for wheat.'',
           ''Apply 210 kg/ha Urea because nitrogen is below recommended level for wheat.'',
           ''Apply 67 kg/ha MOP because potassium is below recommended level for wheat.'',
           ''Apply 53 kg/ha Gypsum because soil sulphur is low for wheat.'',
           ''Apply 3 kg/ha Zinc Sulfate because soil zinc is below recommended levels.'',
           ''Apply 4 kg/ha Borax because soil boron is below recommended levels.''],
          [(''DAP_kg/ha'', 131), (''Urea_kg/ha'', 210), (''MOP_kg/ha'', 67),
           (''Gypsum_kg/ha'', 53), (''ZnSO4_kg/ha'', 3), (''Borax_kg/ha'', 4)])"
  by code_simp

section \<open>C6: DAP, its nitrogen credit, and urea\<close>



section \<open>C7: advisories without a dose\<close>

lemma set_fired_Cons_iff: "x \<in> set (fired (r # rs)) \<longleftrightarrow> r = Some x \<or> x \<in> set (fired rs)"
  by (cases r) auto

lemma advisory_of_nonzero_reading:
  assumes "lower crop_name \<in> {''wheat'', ''paddy'', ''maize'', ''cotton'', ''mustard''}"
  shows "\<exists>messages fert_plan.
           recommend_for_farmer inputs crop_name = Inr (messages, fert_plan) \<and>
           (\<forall>x. reading ref_thresholds inputs ''Fe'' = Some x \<and> x \<noteq> 0 \<and> x < 4.5 \<longrightarrow>
                Fe_text \<in> set messages) \<and>
           (\<forall>x. reading ref_thresholds inputs ''Cu'' = Some x \<and> x \<noteq> 0 \<and> x < 0.2 \<longrightarrow>
                Cu_text \<in> set messages) \<and>
           (\<forall>x. reading ref_thresholds inputs ''Mn'' = Some x \<and> x \<noteq> 0 \<and> x < 2 \<longrightarrow>
                Mn_text \<in> set messages) \<and>
           (\<forall>x. reading ref_thresholds inputs ''pH'' = Some x \<and> x \<noteq> 0 \<and> x < 6 \<longrightarrow>
                ''Soil acidic: apply lime to raise pH.'' \<in> set messages) \<and>
           (\<forall>x. reading ref_thresholds inputs ''pH'' = Some x \<and> x > 8.5 \<longrightarrow>
                ''Soil alkaline: apply gypsum or acidifying measures to lower pH.''
                  \<in> set messages) \<and>
           (\<forall>x. reading ref_thresholds inputs ''EC'' = Some x \<and> x > 4 \<longrightarrow>
                ''High salinity: grow salt-tolerant crops and improve irrigation.''
                  \<in> set messages)"
proof -
  from assms have "lower crop_name \<in> supported_crops"
    by (simp add: supported_crops_def)
  then have r: "recommend_for_farmer inputs crop_name =
      Inr (fired (rule_sequence inputs crop_name), fired (dose_sequence inputs crop_name))"
    by (rule recommend_closed)
  obtain need_N need_P2O5 need_K2O
    where g: "gaps_of inputs crop_name = (need_N, need_P2O5, need_K2O)"
    by (rule gaps_of_cases)
  have mem: "x \<in> set (fired (rule_sequence inputs crop_name))"
    if "Some x \<in> set (drop 7 (rule_sequence inputs crop_name))" for x
  proof -
    from that have "Some x \<in> set (rule_sequence inputs crop_name)"
      by (rule in_set_dropD)
    then show ?thesis
      by (simp add: fired_filter image_iff) force
  qed
  have tail: "drop 7 (rule_sequence inputs crop_name) =
     (let Fe = reading ref_thresholds inputs ''Fe''; Cu = reading ref_thresholds inputs ''Cu'';
          Mn = reading ref_thresholds inputs ''Mn''; pH = reading ref_thresholds inputs ''pH'';
          EC = reading ref_thresholds inputs ''EC''
      in [if truthy Fe \<and> the Fe < 4.5 then Some Fe_text else None,
          if truthy Cu \<and> the Cu < 0.2 then Some Cu_text else None,
          if truthy Mn \<and> the Mn < 2 then Some Mn_text else None,
          if truthy pH \<and> the pH < 6 then Some ''Soil acidic: apply lime to raise pH.''
          else if truthy pH \<and> the pH > 8.5
            then Some ''Soil alkaline: apply gypsum or acidifying measures to lower pH.''
          else None,
          if truthy EC \<and> the EC > 4
            then Some ''High salinity: grow salt-tolerant crops and improve irrigation.''
            else None])"
    unfolding rule_sequence_def g Let_def prod.case by simp
  show ?thesis
    unfolding r
    by (intro exI conjI allI impI, rule refl; rule mem) (auto simp: tail Let_def)
qed

text \<open>
  C7. The claim: a present reading of Fe, Cu or Mn below its low threshold (4.5, 0.2, 2),
  exactly 0 included, gives one foliar-spray message and no dose; a present pH below 6.0
  gives the liming message, a pH above 8.5 the alkaline-soil message, and an EC above 4
  the salinity message. The code tests \<^verbatim>\<open>if Fe and Fe < ...\<close> and \<^verbatim>\<open>if pH and pH < 6.0\<close>:
  for wheat with Fe = Cu = Mn = pH = 0 none of the four messages is there; with
  Fe = 1, Cu = 0.1, Mn = 1, pH = 5 all four are. For every reading other than 0 the
  claim holds (\<open>advisory_of_nonzero_reading\<close>).
\<close>

theorem zero_reading_no_advisory:
  "recommend_for_farmer
       (map_of [(''Fe'', PyInt 0), (''Cu'', PyInt 0), (''Mn'', PyInt 0), (''pH'', PyInt 0)])
       ''wheat'' =
     Inr ([''Apply 131 kg/ha DAP because phosphorus is below recommended level for wheat.'',
           ''Apply 210 kg/ha Urea because nitrogen is below recommended level for wheat.'',
           ''Apply 67 kg/ha MOP because potassium is below recommended level for wheat.''],
          [(''DAP_kg/ha'', 131), (''Urea_kg/ha'', 210), (''MOP_kg/ha'', 67)]) \<and>
   recommend_for_farmer
       (map_of [(''Fe'', PyInt 1), (''Cu'', PyFloat 0.1), (''Mn'', PyInt 1), (''pH'', PyInt 5)])
       ''wheat'' =
     Inr ([''Apply 131 kg/ha DAP because phosphorus is below recommended level for wheat.'',
           ''Apply 210 kg/ha Urea because nitrogen is below recommended level for wheat.'',
           ''Apply 67 kg/ha MOP because potassium is below recommended level for wheat.'',
           ''Iron low: consider foliar Fe spray because soil Fe is insufficient.'',
           ''Copper low: consider foliar Cu spray because soil Cu is insufficient.'',
           ''Manganese low: consider foliar Mn spray because soil Mn is insufficient.'',
           ''Soil acidic: apply lime to raise pH.''],
          [(''DAP_kg/ha'', 131), (''Urea_kg/ha'', 210), (''MOP_kg/ha'', 67)])"
  by code_simp

section \<open>C8: the quantities of the plan\<close>






section \<open>C9: the order of the messages\<close>




section \<open>C10: the engine changes nothing but its own structures\<close>

lemma alloc_simps:
  "fst (alloc ob s) = length (heap s)"
  "heap (snd (alloc ob s)) = heap s @ [ob]"
  "g_baseline_npk (snd (alloc ob s)) = g_baseline_npk s"
  "g_FERT_N_CONTENT (snd (alloc ob s)) = g_FERT_N_CONTENT s"
  "g_ref_thresholds (snd (alloc ob s)) = g_ref_thresholds s"
  by (simp_all add: alloc_def)

lemma run_block_globals:
  "g_baseline_npk (snd (run_block m p f d s)) = g_baseline_npk s"
  "g_FERT_N_CONTENT (snd (run_block m p f d s)) = g_FERT_N_CONTENT s"
  "g_ref_thresholds (snd (run_block m p f d s)) = g_ref_thresholds s"
  by (simp_all add: run_block_def split: obj.splits prod.splits)

lemma run_block_length:
  "length (heap (snd (run_block m p f d s))) = length (heap s)"
  by (simp add: run_block_def split: obj.splits prod.splits)

lemma run_block_take:
  "n \<le> m \<Longrightarrow> n \<le> p \<Longrightarrow> take n (heap (snd (run_block m p f d s))) = take n (heap s)"
  by (simp add: run_block_def split: obj.splits prod.splits)

text \<open>
  C10. For every call of \<^verbatim>\<open>recommend_for_farmer\<close>, in any state and whether it returns or
  raises, the three global tables are as before, and so is every object that was on the
  heap before the call, the caller's \<^verbatim>\<open>inputs\<close> among them. A call that raises leaves
  the state as it was; a call that returns has added two objects, the plan and the
  message list, and returns their addresses.
\<close>

theorem engine_frame:
  "case recommend_for_farmer_st s inputs_ref crop_name of
     (r, s') \<Rightarrow>
       g_baseline_npk s' = g_baseline_npk s \<and>
       g_FERT_N_CONTENT s' = g_FERT_N_CONTENT s \<and>
       g_ref_thresholds s' = g_ref_thresholds s \<and>
       take (length (heap s)) (heap s') = heap s \<and>
       (case r of
          Inl e \<Rightarrow> s' = s
        | Inr (messages, fert_plan) \<Rightarrow>
            fert_plan = length (heap s) \<and> messages = Suc (length (heap s)) \<and>
            length (heap s') = Suc (Suc (length (heap s))))"
  by (simp add: recommend_for_farmer_st_def Let_def split_beta alloc_simps run_block_globals
      run_block_length run_block_take split: option.splits obj.splits del: dom_eq_empty_conv)

text \<open>
  On a state whose global tables hold the values of the source, the engine on the store
  computes what \<open>recommend_for_farmer\<close> computes, into two new objects.
\<close>

lemma alloc_eq: "alloc ob s = (length (heap s), s\<lparr>heap := heap s @ [ob]\<rparr>)"
  by (simp add: alloc_def)

lemma run_block_fresh:
  "run_block (Suc (length h)) (length h) f d (s\<lparr>heap := h @ [PlanObj pl, ListObj ms]\<rparr>) =
     (fst (f (ms, pl)),
      s\<lparr>heap := h @ [PlanObj (snd (snd (f (ms, pl)))), ListObj (fst (snd (f (ms, pl))))]\<rparr>)"
  by (simp add: run_block_def nth_append list_update_append split_beta)

lemma recommend_for_farmer_st_pure:
  assumes "g_baseline_npk s = baseline_npk"
    and "g_FERT_N_CONTENT s = FERT_N_CONTENT"
    and "g_ref_thresholds s = ref_thresholds"
    and "inputs_ref < length (heap s)"
    and "heap s ! inputs_ref = DictObj inputs"
  shows "recommend_for_farmer_st s inputs_ref crop_name =
     (case recommend_for_farmer inputs crop_name of
        Inl e \<Rightarrow> (Inl e, s)
      | Inr (messages, fert_plan) \<Rightarrow>
          (Inr (Suc (length (heap s)), length (heap s)),
           s\<lparr>heap := heap s @ [PlanObj fert_plan, ListObj messages]\<rparr>))"
  using assms
  by (simp add: recommend_for_farmer_st_def recommend_for_farmer_def Let_def split_beta
      alloc_eq run_block_fresh del: dom_eq_empty_conv)

end
